theory Spec2Isabelle
  imports Main
begin

section \<open>The simple HTTP server of Polytool (api/simple\_http\_server.py)\<close>

text \<open>
  A shallow embedding of the two classes of the file: the request handler
  \<^verbatim>\<open>SimpleHTTPHandler\<close> (\<^verbatim>\<open>do_GET\<close>, \<^verbatim>\<open>do_POST\<close> and the three send methods) and
  the server \<^verbatim>\<open>SimpleHTTPServer\<close> (\<^verbatim>\<open>_process_chat_sync\<close>, the port search of
  \<^verbatim>\<open>run\<close>, \<^verbatim>\<open>_is_port_in_use\<close>, \<^verbatim>\<open>_find_free_port\<close>).

  The source is glue between library calls. Every call whose result depends on
  what the client sent or on the operating system is a parameter of the model
  (record \<open>env\<close> and the fields of \<open>handler\<close>), and its outcome is a value of
  \<open>py_exception + 'a\<close>: \<open>Inl\<close> an exception raised, \<open>Inr\<close> the value returned.
  Every \<^verbatim>\<open>try\<close>/\<^verbatim>\<open>except\<close> of the source is a case distinction on that outcome,
  with the class test of the \<^verbatim>\<open>except\<close> clause written out.

  A library call that never returns (a read on a connection that stays silent,
  an agent that hangs) has no outcome here: the model describes the requests
  whose library calls return or raise. Writing bytes to the connection is taken
  to succeed; what can fail in \<^verbatim>\<open>_send_json_response\<close> is the encoding of the
  JSON text, after the status line and the headers have been flushed.

  A leading underscore is not part of an Isabelle name: \<^verbatim>\<open>_send_error\<close> is
  \<open>send_error\<close> here, and so on. Python text is kept as bytes: a text that
  UTF-8 can encode as its UTF-8 encoding, which is what \<^verbatim>\<open>_send_json_response\<close>
  writes. The source never measures a string.
\<close>

subsection \<open>Python values and exceptions\<close>

text \<open>
  The values \<^verbatim>\<open>json.loads\<close> can return and \<^verbatim>\<open>json.dumps\<close> can write. A float is
  carried by its decimal text: the source never computes with one. A
  \<^verbatim>\<open>dict\<close> keeps its insertion order and has string keys.

  A \<^verbatim>\<open>str\<close> is \<open>PStr\<close> when UTF-8 can encode it. \<^verbatim>\<open>json.loads\<close> also returns
  strings that UTF-8 cannot encode: the JSON text \<^verbatim>\<open>"\ud800"\<close> is the string of
  one lone surrogate. Such a string is \<open>PStrSurrogate\<close>, carried by the bytes
  that the error handler \<^verbatim>\<open>surrogatepass\<close> would give.
\<close>

datatype pyval =
    PNone
  | PBool bool
  | PInt int
  | PFloat string
  | PStr string
  | PStrSurrogate string
  | PList "pyval list"
  | PDict "(string \<times> pyval) list"

datatype errno = EADDRINUSE | EACCES | EADDRNOTAVAIL | OtherErrno nat

text \<open>
  The exception classes the library calls of the source raise. The first three
  derive from \<^verbatim>\<open>BaseException\<close> only; every other one derives from
  \<^verbatim>\<open>Exception\<close>. \<^verbatim>\<open>socket.error\<close> is \<^verbatim>\<open>OSError\<close>; it carries its errno
  (\<^verbatim>\<open>PermissionError\<close> is \<open>OSError EACCES\<close>).
\<close>

datatype exc_class =
    KeyboardInterrupt
  | SystemExit
  | CancelledError
  | TypeError
  | ValueError
  | JSONDecodeError
  | UnicodeDecodeError
  | UnicodeEncodeError
  | KeyError
  | AttributeError
  | RuntimeError
  | RecursionError
  | OverflowError
  | OSError errno
  | OtherException

text \<open>An exception: its class and \<^verbatim>\<open>str(e)\<close>.\<close>

datatype py_exception = Exc exc_class string

fun exc_str :: "py_exception \<Rightarrow> string" where
  "exc_str (Exc c m) = m"

text \<open>\<^verbatim>\<open>except Exception\<close>\<close>

fun is_Exception :: "py_exception \<Rightarrow> bool" where
  "is_Exception (Exc KeyboardInterrupt m) = False"
| "is_Exception (Exc SystemExit m) = False"
| "is_Exception (Exc CancelledError m) = False"
| "is_Exception (Exc c m) = True"

text \<open>\<^verbatim>\<open>except json.JSONDecodeError\<close>\<close>

fun is_JSONDecodeError :: "py_exception \<Rightarrow> bool" where
  "is_JSONDecodeError (Exc JSONDecodeError m) = True"
| "is_JSONDecodeError (Exc c m) = False"

text \<open>\<^verbatim>\<open>except RuntimeError\<close> (\<^verbatim>\<open>RecursionError\<close> is a subclass)\<close>

fun is_RuntimeError :: "py_exception \<Rightarrow> bool" where
  "is_RuntimeError (Exc RuntimeError m) = True"
| "is_RuntimeError (Exc RecursionError m) = True"
| "is_RuntimeError (Exc c m) = False"

text \<open>\<^verbatim>\<open>except socket.error\<close>\<close>

fun is_OSError :: "py_exception \<Rightarrow> bool" where
  "is_OSError (Exc (OSError n) m) = True"
| "is_OSError (Exc c m) = False"

text \<open>The name Python prints for the type of a value.\<close>

fun type_name :: "pyval \<Rightarrow> string" where
  "type_name PNone = ''NoneType''"
| "type_name (PBool b) = ''bool''"
| "type_name (PInt i) = ''int''"
| "type_name (PFloat f) = ''float''"
| "type_name (PStr s) = ''str''"
| "type_name (PStrSurrogate s) = ''str''"
| "type_name (PList xs) = ''list''"
| "type_name (PDict kvs) = ''dict''"

text \<open>\<^verbatim>\<open>p in s\<close> for two strings: \<open>p\<close> occurs in \<open>s\<close>.\<close>

fun occurs_in :: "string \<Rightarrow> string \<Rightarrow> bool" where
  "occurs_in p [] = (p = [])"
| "occurs_in p (c # cs) = (take (length p) (c # cs) = p \<or> occurs_in p cs)"

text \<open>
  \<^verbatim>\<open>k in v\<close> for a string \<open>k\<close>: a key of a dict, an element of a list, a
  substring of a string; any other value is not a container and the test raises
  \<^verbatim>\<open>TypeError\<close>.
\<close>

fun py_contains :: "pyval \<Rightarrow> string \<Rightarrow> py_exception + bool" where
  "py_contains (PDict kvs) k = Inr (k \<in> set (map fst kvs))"
| "py_contains (PList xs) k = Inr (PStr k \<in> set xs)"
| "py_contains (PStr s) k = Inr (occurs_in k s)"
| "py_contains (PStrSurrogate s) k = Inr (occurs_in k s)"
| "py_contains v k =
     Inl (Exc TypeError (''argument of type '' @ [CHR 0x27] @ type_name v @ [CHR 0x27]
                          @ '' is not iterable''))"

text \<open>\<^verbatim>\<open>v[k]\<close> for a string \<open>k\<close>.\<close>

fun py_getitem :: "pyval \<Rightarrow> string \<Rightarrow> py_exception + pyval" where
  "py_getitem (PDict kvs) k =
     (case map_of kvs k of
        Some v \<Rightarrow> Inr v
      | None \<Rightarrow> Inl (Exc KeyError ([CHR 0x27] @ k @ [CHR 0x27])))"
| "py_getitem (PList xs) k =
     Inl (Exc TypeError ''list indices must be integers or slices, not str'')"
| "py_getitem (PStr s) k =
     Inl (Exc TypeError (''string indices must be integers, not 'str'' @ [CHR 0x27]))"
| "py_getitem (PStrSurrogate s) k =
     Inl (Exc TypeError (''string indices must be integers, not 'str'' @ [CHR 0x27]))"
| "py_getitem v k =
     Inl (Exc TypeError ([CHR 0x27] @ type_name v @ [CHR 0x27] @ '' object is not subscriptable''))"

text \<open>\<^verbatim>\<open>v.get(k, d)\<close>: only a dict has the method.\<close>

fun py_get :: "pyval \<Rightarrow> string \<Rightarrow> pyval \<Rightarrow> py_exception + pyval" where
  "py_get (PDict kvs) k d = Inr (case map_of kvs k of Some v \<Rightarrow> v | None \<Rightarrow> d)"
| "py_get v k d =
     Inl (Exc AttributeError ([CHR 0x27] @ type_name v @ [CHR 0x27]
                               @ '' object has no attribute 'get'' @ [CHR 0x27]))"

text \<open>
  \<^verbatim>\<open>json.dumps(v, ensure_ascii=False, indent=2).encode('utf-8')\<close> succeeds: no
  string inside \<open>v\<close> holds a lone surrogate. (The keys of a dict are taken to
  encode: the source writes no key that it did not spell itself.)
\<close>

fun encodable :: "pyval \<Rightarrow> bool" where
  "encodable (PStrSurrogate s) = False"
| "encodable (PList xs) = list_all encodable xs"
| "encodable (PDict kvs) = list_all encodable (map snd kvs)"
| "encodable v = True"

subsection \<open>The environment of the server\<close>

text \<open>
  An agent is its \<^verbatim>\<open>process\<close> coroutine run to completion: from the request
  dict to the result, or to the exception it raises.
\<close>

type_synonym agent = "pyval \<Rightarrow> py_exception + pyval"

text \<open>
  The scheduler calls and the log line of \<^verbatim>\<open>_process_chat_sync\<close>, in the order
  they happen; and \<open>FlushedHead code hs\<close>, a status line and headers that
  \<^verbatim>\<open>_send_json_response\<close> flushed to the connection before it raised, so that no
  body follows them.
\<close>

datatype effect =
    GetEventLoop
  | NewEventLoop
  | SetEventLoop
  | RunUntilComplete pyval
  | LoggerError string
  | FlushedHead int "(string \<times> string) list"

text \<open>
  The library and the operating system. \<open>urlparse_path u\<close> is
  \<^verbatim>\<open>urlparse(u).path\<close>; \<open>int_str s\<close> is \<^verbatim>\<open>int(s)\<close> for a string;
  \<open>decode_utf8 b\<close> is \<^verbatim>\<open>b.decode('utf-8')\<close>; \<open>json_loads\<close> is \<^verbatim>\<open>json.loads\<close>;
  \<open>now_isoformat\<close> is \<^verbatim>\<open>datetime.now().isoformat()\<close> (each path through a
  handler reads the clock once); \<open>get_event_loop\<close> and \<open>new_event_loop\<close> are
  \<open>None\<close> when the asyncio call returns a loop and the exception otherwise;
  \<open>socket_bind host port\<close> is \<open>None\<close> when \<^verbatim>\<open>s.bind((host, port))\<close> on a fresh
  socket succeeds and the exception otherwise; \<open>encode_error v\<close> is the text of
  the \<^verbatim>\<open>UnicodeEncodeError\<close> that encoding the JSON text of \<open>v\<close> raises when
  \<open>v\<close> holds a lone surrogate.
\<close>

record env =
  urlparse_path :: "string \<Rightarrow> py_exception + string"
  int_str :: "string \<Rightarrow> py_exception + int"
  decode_utf8 :: "string \<Rightarrow> py_exception + string"
  json_loads :: "string \<Rightarrow> py_exception + pyval"
  now_isoformat :: string
  get_event_loop :: "py_exception option"
  new_event_loop :: "py_exception option"
  socket_bind :: "string \<Rightarrow> int \<Rightarrow> py_exception option"
  encode_error :: "pyval \<Rightarrow> string"

text \<open>
  \<^verbatim>\<open>SimpleHTTPServer\<close>: the agent directory \<^verbatim>\<open>agent_manager.active_agents\<close> and
  \<^verbatim>\<open>default_chatbot_id\<close>.
\<close>

record server =
  active_agents :: "(string \<times> agent) list"
  default_chatbot_id :: string

text \<open>
  Modelled from the spec: \<^verbatim>\<open>AgentManager.get_agent\<close> (module \<^verbatim>\<open>agent\<close>, not among the
  sources), "\<^verbatim>\<open>get_agent(id) -> AgentHandle|None\<close>" on "the in-process registry
  mapping agent ids to handles".
\<close>

definition get_agent :: "server \<Rightarrow> string \<Rightarrow> agent option" where
  "get_agent srv agent_id = map_of (active_agents srv) agent_id"

text \<open>
  One request as \<^verbatim>\<open>SimpleHTTPHandler\<close> sees it: \<^verbatim>\<open>self.path\<close>,
  \<^verbatim>\<open>self.headers['Content-Length']\<close> (\<open>None\<close> when the request has no such
  header), \<^verbatim>\<open>self.rfile.read\<close>, and the class variable \<^verbatim>\<open>server_instance\<close>.
\<close>

record handler =
  path :: string
  content_length :: "string option"
  rfile_read :: "int \<Rightarrow> py_exception + string"
  server_instance :: "server option"

text \<open>\<^verbatim>\<open>int(x)\<close> where \<open>x\<close> is a header value or \<^verbatim>\<open>None\<close>.\<close>

definition py_int :: "env \<Rightarrow> string option \<Rightarrow> py_exception + int" where
  "py_int env x =
     (case x of
        None \<Rightarrow> Inl (Exc TypeError
          (''int() argument must be a string, a bytes-like object or a real number, not ''
           @ [CHR 0x27] @ ''NoneType'' @ [CHR 0x27]))
      | Some s \<Rightarrow> int_str env s)"

subsection \<open>Responses\<close>

datatype body = JsonBody pyval | HtmlBody string

text \<open>
  What one send method writes: the status line, the headers, the body.
  \<open>JsonBody data\<close> is the UTF-8 text of
  \<^verbatim>\<open>json.dumps(data, ensure_ascii=False, indent=2)\<close>.
\<close>

record response =
  status_code :: int
  headers :: "(string \<times> string) list"
  body :: body

text \<open>What a call of \<^verbatim>\<open>_send_json_response\<close> that returns has written.\<close>

definition json_response :: "pyval \<Rightarrow> int \<Rightarrow> response" where
  "json_response data code =
     \<lparr>status_code = code,
      headers = [(''Content-Type'', ''application/json''),
                 (''Access-Control-Allow-Origin'', ''*'')],
      body = JsonBody data\<rparr>"

text \<open>
  \<^verbatim>\<open>_send_json_response\<close>: lines 117-120 flush the status line and the two
  headers, then lines 122-123 dump and encode the body. When the encoding
  raises, the method is left with the head on the connection and no body:
  that is the outcome \<open>Inl\<close>.
\<close>

definition send_json_response :: "env \<Rightarrow> pyval \<Rightarrow> int \<Rightarrow> py_exception + response" where
  "send_json_response env data code =
     (if encodable data then Inr (json_response data code)
      else Inl (Exc UnicodeEncodeError (encode_error env data)))"

definition send_html_response :: "string \<Rightarrow> int \<Rightarrow> response" where
  "send_html_response html code =
     \<lparr>status_code = code,
      headers = [(''Content-Type'', ''text/html; charset=utf-8'')],
      body = HtmlBody html\<rparr>"

text \<open>
  \<^verbatim>\<open>_send_error\<close> hands \<^verbatim>\<open>_send_json_response\<close> a dict of a message, a number and
  a timestamp. The messages of the source are literals and texts of exceptions,
  which UTF-8 encodes, so that call returns (\<open>send_error_written\<close> below) and
  \<open>send_error\<close> is what it has written.
\<close>

definition send_error :: "env \<Rightarrow> int \<Rightarrow> string \<Rightarrow> response" where
  "send_error env code message =
     json_response
       (PDict [(''error'', PStr message),
               (''status_code'', PInt code),
               (''timestamp'', PStr (now_isoformat env))])
       code"

subsection \<open>\<^verbatim>\<open>SimpleHTTPServer._process_chat_sync\<close>\<close>

definition msg_not_initialized :: string where
  "msg_not_initialized =
     ''ChatBot'' @ [CHR 0xE6, CHR 0x9C, CHR 0xAA, CHR 0xE5, CHR 0x88, CHR 0x9D,
                    CHR 0xE5, CHR 0xA7, CHR 0x8B, CHR 0xE5, CHR 0x8C, CHR 0x96]"

definition msg_process_failed :: string where
  "msg_process_failed =
     ''ChatBot'' @ [CHR 0xE5, CHR 0xA4, CHR 0x84, CHR 0xE7, CHR 0x90, CHR 0x86,
                    CHR 0xE5, CHR 0xA4, CHR 0xB1, CHR 0xE8, CHR 0xB4, CHR 0xA5]"

definition msg_chat_exception :: string where
  "msg_chat_exception =
     [CHR 0xE8, CHR 0x81, CHR 0x8A, CHR 0xE5, CHR 0xA4, CHR 0xA9, CHR 0xE8, CHR 0xAF,
      CHR 0xB7, CHR 0xE6, CHR 0xB1, CHR 0x82, CHR 0xE5, CHR 0xA4, CHR 0x84, CHR 0xE7,
      CHR 0x90, CHR 0x86, CHR 0xE5, CHR 0xBC, CHR 0x82, CHR 0xE5, CHR 0xB8, CHR 0xB8] @ '': ''"

text \<open>
  Lines 212-216: \<^verbatim>\<open>asyncio.get_event_loop()\<close>, and on \<^verbatim>\<open>RuntimeError\<close> a new loop
  that is made the current one. The result is the exception that leaves the
  block, if any.
\<close>

definition acquire_loop :: "env \<Rightarrow> py_exception option \<times> effect list" where
  "acquire_loop env =
     (case get_event_loop env of
        None \<Rightarrow> (None, [GetEventLoop])
      | Some e \<Rightarrow>
          if is_RuntimeError e then
            (case new_event_loop env of
               None \<Rightarrow> (None, [GetEventLoop, NewEventLoop, SetEventLoop])
             | Some e' \<Rightarrow> (Some e', [GetEventLoop, NewEventLoop]))
          else (Some e, [GetEventLoop]))"

text \<open>Lines 219-223: the dict handed to \<^verbatim>\<open>chatbot.process\<close>, built key by key.\<close>

definition agent_request :: "pyval \<Rightarrow> py_exception + pyval" where
  "agent_request request_data =
     (case py_getitem request_data ''message'' of
        Inl e \<Rightarrow> Inl e
      | Inr m \<Rightarrow>
          (case py_get request_data ''session_id'' (PStr ''default'') of
             Inl e \<Rightarrow> Inl e
           | Inr sid \<Rightarrow>
               (case py_get request_data ''context'' (PDict []) of
                  Inl e \<Rightarrow> Inl e
                | Inr ctx \<Rightarrow>
                    Inr (PDict [(''message'', m), (''session_id'', sid), (''context'', ctx)]))))"

text \<open>Lines 225-238: the dict returned for the agent's result.\<close>

definition chat_result :: "env \<Rightarrow> pyval \<Rightarrow> pyval \<Rightarrow> py_exception + pyval" where
  "chat_result env request_data result =
     (case py_getitem result ''status'' of
        Inl e \<Rightarrow> Inl e
      | Inr st \<Rightarrow>
          if st = PStr ''success'' then
            (case py_getitem result ''response'' of
               Inl e \<Rightarrow> Inl e
             | Inr resp \<Rightarrow>
                 (case py_get request_data ''session_id'' (PStr ''default'') of
                    Inl e \<Rightarrow> Inl e
                  | Inr sid \<Rightarrow>
                      (case py_get result ''conversation_length'' (PInt 0) of
                         Inl e \<Rightarrow> Inl e
                       | Inr n \<Rightarrow>
                           Inr (PDict [(''status'', PStr ''success''),
                                       (''response'', resp),
                                       (''session_id'', sid),
                                       (''timestamp'', PStr (now_isoformat env)),
                                       (''conversation_length'', n)]))))
          else
            (case py_get result ''message'' (PStr msg_process_failed) of
               Inl e \<Rightarrow> Inl e
             | Inr m \<Rightarrow>
                 Inr (PDict [(''status'', PStr ''error''),
                             (''message'', m),
                             (''timestamp'', PStr (now_isoformat env))])))"

text \<open>
  Lines 202-238: the body of the \<^verbatim>\<open>try\<close>. An agent handle is an object and
  counts as true, so \<^verbatim>\<open>not chatbot\<close> holds exactly when \<^verbatim>\<open>get_agent\<close> returned
  \<^verbatim>\<open>None\<close>.
\<close>

definition process_chat_try ::
    "env \<Rightarrow> server \<Rightarrow> pyval \<Rightarrow> (py_exception + pyval) \<times> effect list" where
  "process_chat_try env srv request_data =
     (case get_agent srv (default_chatbot_id srv) of
        None \<Rightarrow>
          (Inr (PDict [(''status'', PStr ''error''),
                       (''message'', PStr msg_not_initialized),
                       (''timestamp'', PStr (now_isoformat env))]), [])
      | Some chatbot \<Rightarrow>
          (case acquire_loop env of
             (Some e, fx) \<Rightarrow> (Inl e, fx)
           | (None, fx) \<Rightarrow>
               (case agent_request request_data of
                  Inl e \<Rightarrow> (Inl e, fx)
                | Inr arg \<Rightarrow>
                    (case chatbot arg of
                       Inl e \<Rightarrow> (Inl e, fx @ [RunUntilComplete arg])
                     | Inr result \<Rightarrow>
                         (chat_result env request_data result,
                          fx @ [RunUntilComplete arg])))))"

text \<open>
  \<^verbatim>\<open>_process_chat_sync\<close>: the \<^verbatim>\<open>try\<close> with its \<^verbatim>\<open>except Exception\<close>, which logs
  and returns an error dict. An exception outside \<^verbatim>\<open>Exception\<close> leaves the
  method.
\<close>

definition process_chat_sync ::
    "env \<Rightarrow> server \<Rightarrow> pyval \<Rightarrow> (py_exception + pyval) \<times> effect list" where
  "process_chat_sync env srv request_data =
     (case process_chat_try env srv request_data of
        (Inr d, fx) \<Rightarrow> (Inr d, fx)
      | (Inl e, fx) \<Rightarrow>
          if is_Exception e then
            (Inr (PDict [(''status'', PStr ''error''),
                         (''message'', PStr (exc_str e)),
                         (''timestamp'', PStr (now_isoformat env))]),
             fx @ [LoggerError (msg_chat_exception @ exc_str e)])
          else (Inl e, fx))"

subsection \<open>\<^verbatim>\<open>SimpleHTTPHandler.do_GET\<close>\<close>

definition root_info :: pyval where
  "root_info =
     PDict [(''message'', PStr ''Welcome to Polytool API''),
            (''version'', PStr ''0.1.0''),
            (''docs'', PStr ''Currently using simple HTTP server. Install fastapi for full features.''),
            (''status'', PStr ''running''),
            (''endpoints'',
               PDict [(''/'', PStr (''API'' @ [CHR 0xE4, CHR 0xBF, CHR 0xA1, CHR 0xE6, CHR 0x81, CHR 0xAF])),
                      (''/health'', PStr [CHR 0xE5, CHR 0x81, CHR 0xA5, CHR 0xE5, CHR 0xBA, CHR 0xB7,
                                          CHR 0xE6, CHR 0xA3, CHR 0x80, CHR 0xE6, CHR 0x9F, CHR 0xA5]),
                      (''/chat'', PStr (''POST - '' @ [CHR 0xE4, CHR 0xB8, CHR 0x8E] @ ''ChatBot''
                                        @ [CHR 0xE5, CHR 0xAF, CHR 0xB9, CHR 0xE8, CHR 0xAF, CHR 0x9D]))])]"

definition health_info :: "env \<Rightarrow> server option \<Rightarrow> pyval" where
  "health_info env inst =
     PDict [(''status'', PStr ''healthy''),
            (''timestamp'', PStr (now_isoformat env)),
            (''server'', PStr ''simple_http''),
            (''agents_count'',
               PInt (case inst of
                       Some srv \<Rightarrow> int (length (active_agents srv))
                     | None \<Rightarrow> 0))]"

definition docs_html :: string where
  "docs_html =
     [CHR 0x0A] @
     ''            <!DOCTYPE html>'' @ [CHR 0x0A] @
     ''            <html>'' @ [CHR 0x0A] @
     ''            <head><title>Polytool API'' @ [CHR 0xE6, CHR 0x96, CHR 0x87, CHR 0xE6, CHR 0xA1, CHR 0xA3] @ ''</title></head>'' @ [CHR 0x0A] @
     ''            <body>'' @ [CHR 0x0A] @
     ''                <h1>Polytool API '' @ [CHR 0xE7, CHR 0xAE, CHR 0x80, CHR 0xE5, CHR 0x8D, CHR 0x95, CHR 0xE6, CHR 0x96, CHR 0x87, CHR 0xE6, CHR 0xA1, CHR 0xA3] @ ''</h1>'' @ [CHR 0x0A] @
     ''                <h2>'' @ [CHR 0xE5, CHR 0x8F, CHR 0xAF, CHR 0xE7, CHR 0x94, CHR 0xA8, CHR 0xE7, CHR 0xAB, CHR 0xAF, CHR 0xE7, CHR 0x82, CHR 0xB9] @ '':</h2>'' @ [CHR 0x0A] @
     ''                <ul>'' @ [CHR 0x0A] @
     ''                    <li><strong>GET /</strong> - API'' @ [CHR 0xE4, CHR 0xBF, CHR 0xA1, CHR 0xE6, CHR 0x81, CHR 0xAF] @ ''</li>'' @ [CHR 0x0A] @
     ''                    <li><strong>GET /health</strong> - '' @ [CHR 0xE5, CHR 0x81, CHR 0xA5, CHR 0xE5, CHR 0xBA, CHR 0xB7, CHR 0xE6, CHR 0xA3, CHR 0x80, CHR 0xE6, CHR 0x9F, CHR 0xA5] @ ''</li>'' @ [CHR 0x0A] @
     ''                    <li><strong>POST /chat</strong> - '' @ [CHR 0xE4, CHR 0xB8, CHR 0x8E] @ ''ChatBot'' @ [CHR 0xE5, CHR 0xAF, CHR 0xB9, CHR 0xE8, CHR 0xAF, CHR 0x9D] @ ''</li>'' @ [CHR 0x0A] @
     ''                </ul>'' @ [CHR 0x0A] @
     ''                <h3>POST /chat '' @ [CHR 0xE7, CHR 0xA4, CHR 0xBA, CHR 0xE4, CHR 0xBE, CHR 0x8B] @ '':</h3>'' @ [CHR 0x0A] @
     ''                <pre>'' @ [CHR 0x0A] @
     ''{'' @ [CHR 0x0A] @
     ''    '' @ [CHR 0x22] @ ''message'' @ [CHR 0x22] @ '': '' @ [CHR 0x22, CHR 0xE4, CHR 0xBD, CHR 0xA0, CHR 0xE5, CHR 0xA5, CHR 0xBD, CHR 0x22] @ '','' @ [CHR 0x0A] @
     ''    '' @ [CHR 0x22] @ ''session_id'' @ [CHR 0x22] @ '': '' @ [CHR 0x22] @ ''test_session'' @ [CHR 0x22] @ [CHR 0x0A] @
     ''}'' @ [CHR 0x0A] @
     ''                </pre>'' @ [CHR 0x0A] @
     ''                <p>'' @ [CHR 0xE6, CHR 0xB3, CHR 0xA8, CHR 0xE6, CHR 0x84, CHR 0x8F, CHR 0xEF, CHR 0xBC, CHR 0x9A, CHR 0xE8, CHR 0xBF, CHR 0x99, CHR 0xE6, CHR 0x98, CHR 0xAF, CHR 0xE7, CHR 0xAE, CHR 0x80, CHR 0xE5, CHR 0x8C, CHR 0x96, CHR 0xE7, CHR 0x89, CHR 0x88] @ ''HTTP'' @ [CHR 0xE6, CHR 0x9C, CHR 0x8D, CHR 0xE5, CHR 0x8A, CHR 0xA1, CHR 0xE5, CHR 0x99, CHR 0xA8, CHR 0xE3, CHR 0x80, CHR 0x82, CHR 0xE8, CHR 0xA6, CHR 0x81, CHR 0xE8, CHR 0x8E, CHR 0xB7, CHR 0xE5, CHR 0xBE, CHR 0x97, CHR 0xE5, CHR 0xAE, CHR 0x8C, CHR 0xE6, CHR 0x95, CHR 0xB4, CHR 0xE5, CHR 0x8A, CHR 0x9F, CHR 0xE8, CHR 0x83, CHR 0xBD, CHR 0xEF, CHR 0xBC, CHR 0x8C, CHR 0xE8, CHR 0xAF, CHR 0xB7, CHR 0xE5, CHR 0xAE, CHR 0x89, CHR 0xE8, CHR 0xA3, CHR 0x85] @ '' fastapi '' @ [CHR 0xE5, CHR 0x92, CHR 0x8C] @ '' uvicorn'' @ [CHR 0xE3, CHR 0x80, CHR 0x82] @ ''</p>'' @ [CHR 0x0A] @
     ''            </body>'' @ [CHR 0x0A] @
     ''            </html>'' @ [CHR 0x0A] @
     ''            ''"

text \<open>
  \<^verbatim>\<open>urlparse\<close> stands outside every \<^verbatim>\<open>try\<close>: what it raises leaves the method
  before anything is written.
\<close>

definition do_GET :: "env \<Rightarrow> handler \<Rightarrow> py_exception + response" where
  "do_GET env h =
     (case urlparse_path env (path h) of
        Inl e \<Rightarrow> Inl e
      | Inr p \<Rightarrow>
          if p = ''/'' then send_json_response env root_info 200
          else if p = ''/health'' then
            send_json_response env (health_info env (server_instance h)) 200
          else if p = ''/docs'' then Inr (send_html_response docs_html 200)
          else Inr (send_error env 404 ''Not Found''))"

subsection \<open>\<^verbatim>\<open>SimpleHTTPHandler.do_POST\<close>\<close>

text \<open>
  Lines 87-108, the body of the outer \<^verbatim>\<open>try\<close>. The inner \<^verbatim>\<open>try\<close> covers the
  decoding and the parsing, and its \<^verbatim>\<open>except\<close> takes \<^verbatim>\<open>JSONDecodeError\<close> only.
  The result of \<^verbatim>\<open>_process_chat_sync\<close> is written with the default status 200;
  when that write raises after its head was flushed, the exception goes on to
  the outer \<^verbatim>\<open>except\<close> and the flushed head is recorded.
\<close>

definition chat_try ::
    "env \<Rightarrow> handler \<Rightarrow> (py_exception + response) \<times> effect list" where
  "chat_try env h =
     (case py_int env (content_length h) of
        Inl e \<Rightarrow> (Inl e, [])
      | Inr n \<Rightarrow>
          (case rfile_read h n of
             Inl e \<Rightarrow> (Inl e, [])
           | Inr post_data \<Rightarrow>
               (case (case decode_utf8 env post_data of
                        Inl e \<Rightarrow> Inl e
                      | Inr txt \<Rightarrow> json_loads env txt) of
                  Inl e \<Rightarrow>
                    if is_JSONDecodeError e
                    then (Inr (send_error env 400 ''Invalid JSON''), [])
                    else (Inl e, [])
                | Inr request_data \<Rightarrow>
                    (case py_contains request_data ''message'' of
                       Inl e \<Rightarrow> (Inl e, [])
                     | Inr False \<Rightarrow>
                         (Inr (send_error env 400 ''Missing 'message' field''), [])
                     | Inr True \<Rightarrow>
                         (case server_instance h of
                            Some srv \<Rightarrow>
                              (case process_chat_sync env srv request_data of
                                 (Inl e, fx) \<Rightarrow> (Inl e, fx)
                               | (Inr d, fx) \<Rightarrow>
                                   (case send_json_response env d 200 of
                                      Inr r \<Rightarrow> (Inr r, fx)
                                    | Inl e \<Rightarrow>
                                        (Inl e,
                                         fx @ [FlushedHead 200
                                                 [(''Content-Type'', ''application/json''),
                                                  (''Access-Control-Allow-Origin'', ''*'')]])))
                          | None \<Rightarrow>
                              (Inr (send_error env 500 ''Server not initialized''), []))))))"

text \<open>
  \<^verbatim>\<open>do_POST\<close>: the route test, and for \<^verbatim>\<open>/chat\<close> the outer \<^verbatim>\<open>try\<close> with its
  \<^verbatim>\<open>except Exception\<close>.
\<close>

definition do_POST ::
    "env \<Rightarrow> handler \<Rightarrow> (py_exception + response) \<times> effect list" where
  "do_POST env h =
     (case urlparse_path env (path h) of
        Inl e \<Rightarrow> (Inl e, [])
      | Inr p \<Rightarrow>
          if p = ''/chat'' then
            (case chat_try env h of
               (Inr r, fx) \<Rightarrow> (Inr r, fx)
             | (Inl e, fx) \<Rightarrow>
                 if is_Exception e
                 then (Inr (send_error env 500 (''Internal server error: '' @ exc_str e)), fx)
                 else (Inl e, fx))
          else (Inr (send_error env 404 ''Not Found''), []))"

subsection \<open>Port search: \<^verbatim>\<open>_is_port_in_use\<close>, \<^verbatim>\<open>_find_free_port\<close>, \<^verbatim>\<open>run\<close>\<close>

definition msg_no_free_port :: string where
  "msg_no_free_port =
     [CHR 0xE6, CHR 0x97, CHR 0xA0, CHR 0xE6, CHR 0xB3, CHR 0x95, CHR 0xE6, CHR 0x89,
      CHR 0xBE, CHR 0xE5, CHR 0x88, CHR 0xB0, CHR 0xE5, CHR 0x8F, CHR 0xAF, CHR 0xE7,
      CHR 0x94, CHR 0xA8, CHR 0xE7, CHR 0xAB, CHR 0xAF, CHR 0xE5, CHR 0x8F, CHR 0xA3]"

text \<open>
  \<^verbatim>\<open>_is_port_in_use\<close>: a bind that raises any \<^verbatim>\<open>socket.error\<close> answers
  \<^verbatim>\<open>True\<close>; what else it raises leaves the method.
\<close>

definition is_port_in_use :: "env \<Rightarrow> string \<Rightarrow> int \<Rightarrow> py_exception + bool" where
  "is_port_in_use env host port =
     (case socket_bind env host port of
        None \<Rightarrow> Inr False
      | Some e \<Rightarrow> if is_OSError e then Inr True else Inl e)"

text \<open>The \<^verbatim>\<open>for\<close> loop of \<^verbatim>\<open>_find_free_port\<close> over the ports still to try.\<close>

fun find_free_port_loop :: "env \<Rightarrow> string \<Rightarrow> int list \<Rightarrow> py_exception + int" where
  "find_free_port_loop env host [] = Inl (Exc RuntimeError msg_no_free_port)"
| "find_free_port_loop env host (port # ports) =
     (case is_port_in_use env host port of
        Inl e \<Rightarrow> Inl e
      | Inr True \<Rightarrow> find_free_port_loop env host ports
      | Inr False \<Rightarrow> Inr port)"

text \<open>\<^verbatim>\<open>range(start_port + 1, start_port + 100)\<close> is \<open>[start_port + 1..start_port + 99]\<close>.\<close>

definition find_free_port :: "env \<Rightarrow> string \<Rightarrow> int \<Rightarrow> py_exception + int" where
  "find_free_port env host start_port =
     find_free_port_loop env host [start_port + 1..start_port + 99]"

text \<open>\<^verbatim>\<open>config.settings\<close>, the defaults of \<^verbatim>\<open>run\<close>.\<close>

record settings =
  SERVER_HOST :: string
  SERVER_PORT :: int

text \<open>
  Lines 250-256 of \<^verbatim>\<open>run\<close>: the defaults (\<^verbatim>\<open>host or ...\<close>, \<^verbatim>\<open>port or ...\<close>) and the
  port the listener is then created on.
\<close>

definition run_port ::
    "env \<Rightarrow> settings \<Rightarrow> string option \<Rightarrow> int option \<Rightarrow> py_exception + int" where
  "run_port env cfg host port =
     (let host' = (case host of
                     None \<Rightarrow> SERVER_HOST cfg
                   | Some a \<Rightarrow> if a = [] then SERVER_HOST cfg else a);
          port' = (case port of
                     None \<Rightarrow> SERVER_PORT cfg
                   | Some p \<Rightarrow> if p = 0 then SERVER_PORT cfg else p)
      in case is_port_in_use env host' port' of
           Inl e \<Rightarrow> Inl e
         | Inr True \<Rightarrow> find_free_port env host' port'
         | Inr False \<Rightarrow> Inr port')"

subsection \<open>Concrete inputs\<close>

text \<open>
  The inputs the closed theorems below are evaluated at. \<open>sample_env\<close> lists
  what CPython 3.11 answers at them: \<^verbatim>\<open>urlparse\<close> rejects the request targets
  \<^verbatim>\<open>http://[/\<close> and \<^verbatim>\<open>http://]/nope\<close> (a lone bracket in the host) and returns
  the other targets used here unchanged; \<^verbatim>\<open>int\<close> reads the decimal lengths and
  rejects \<^verbatim>\<open>abc\<close>; the bodies are ASCII; \<^verbatim>\<open>json.loads\<close> parses five of them
  and rejects \<^verbatim>\<open>not-json\<close>. The body \<open>body_surrogate\<close> is
  \<^verbatim>\<open>{"message":"hi","session_id":"\ud800"}\<close>: valid JSON whose session id is one
  lone surrogate; \<open>encode_error\<close> is the text of the \<^verbatim>\<open>UnicodeEncodeError\<close> for
  the success response that echoes it. A bind to a port outside 0..65535 raises
  \<^verbatim>\<open>OverflowError\<close>, a bind to a port below 1024 is refused with \<^verbatim>\<open>EACCES\<close> (an
  unprivileged process), every other bind succeeds.
\<close>

definition body_hello :: string where
  "body_hello =
     ''{'' @ [CHR 0x22] @ ''message'' @ [CHR 0x22] @ '':'' @ [CHR 0x22] @ ''hello'' @ [CHR 0x22]
     @ '','' @ [CHR 0x22] @ ''session_id'' @ [CHR 0x22] @ '':'' @ [CHR 0x22] @ ''s1'' @ [CHR 0x22]
     @ ''}''"

definition body_empty_message :: string where
  "body_empty_message =
     ''{'' @ [CHR 0x22] @ ''message'' @ [CHR 0x22] @ '':'' @ [CHR 0x22, CHR 0x22] @ ''}''"

definition body_surrogate :: string where
  "body_surrogate =
     ''{'' @ [CHR 0x22] @ ''message'' @ [CHR 0x22] @ '':'' @ [CHR 0x22] @ ''hi'' @ [CHR 0x22]
     @ '','' @ [CHR 0x22] @ ''session_id'' @ [CHR 0x22] @ '':'' @ [CHR 0x22, CHR 0x5C]
     @ ''ud800'' @ [CHR 0x22] @ ''}''"

definition sample_env :: env where
  "sample_env =
     \<lparr>urlparse_path =
        (\<lambda>u. if u = ''http://[/'' \<or> u = ''http://]/nope''
             then Inl (Exc ValueError ''Invalid IPv6 URL'') else Inr u),
      int_str =
        (\<lambda>s. if s = ''37'' then Inr 37
             else if s = ''38'' then Inr 38
             else if s = ''14'' then Inr 14
             else if s = ''8'' then Inr 8
             else if s = ''2'' then Inr 2
             else if s = ''1'' then Inr 1
             else Inl (Exc ValueError (''invalid literal for int() with base 10: ''
                                       @ [CHR 0x27] @ s @ [CHR 0x27]))),
      decode_utf8 = (\<lambda>b. Inr b),
      json_loads =
        (\<lambda>t. if t = body_hello
               then Inr (PDict [(''message'', PStr ''hello''), (''session_id'', PStr ''s1'')])
             else if t = body_empty_message then Inr (PDict [(''message'', PStr [])])
             else if t = ''{}'' then Inr (PDict [])
             else if t = ''5'' then Inr (PInt 5)
             else if t = body_surrogate
               then Inr (PDict [(''message'', PStr ''hi''),
                                (''session_id'', PStrSurrogate [CHR 0xED, CHR 0xA0, CHR 0x80])])
             else Inl (Exc JSONDecodeError ''Expecting value: line 1 column 1 (char 0)'')),
      now_isoformat = ''2024-01-01T00:00:00.000000'',
      get_event_loop = None,
      new_event_loop = None,
      socket_bind =
        (\<lambda>host port. if port < 0 \<or> 65535 < port
                      then Some (Exc OverflowError ''bind(): port must be 0-65535.'')
                      else if port < 1024
                      then Some (Exc (OSError EACCES) ''[Errno 13] Permission denied'')
                      else None),
      encode_error =
        (\<lambda>v. [CHR 0x27] @ ''utf-8'' @ [CHR 0x27] @ '' codec can't encode character ''
             @ [CHR 0x27, CHR 0x5C] @ ''ud800'' @ [CHR 0x27]
             @ '' in position 62: surrogates not allowed'')\<rparr>"

text \<open>A stream that holds the bytes \<open>b\<close> and then ends: \<^verbatim>\<open>read(n)\<close> on it.\<close>

definition rfile_of :: "string \<Rightarrow> int \<Rightarrow> py_exception + string" where
  "rfile_of b n = Inr (if n < 0 then b else take (nat n) b)"

text \<open>An agent whose \<^verbatim>\<open>process\<close> returns \<open>result\<close> whatever it is asked.\<close>

definition reply_agent :: "pyval \<Rightarrow> agent" where
  "reply_agent result = (\<lambda>request. Inr result)"

definition sample_server :: "pyval \<Rightarrow> server" where
  "sample_server result =
     \<lparr>active_agents = [(''default_chatbot'', reply_agent result)],
      default_chatbot_id = ''default_chatbot''\<rparr>"

text \<open>A server whose default agent was never created.\<close>

definition empty_server :: server where
  "empty_server = \<lparr>active_agents = [], default_chatbot_id = ''default_chatbot''\<rparr>"

definition sample_handler ::
    "string \<Rightarrow> string option \<Rightarrow> string \<Rightarrow> server option \<Rightarrow> handler" where
  "sample_handler target len b inst =
     \<lparr>path = target, content_length = len, rfile_read = rfile_of b, server_instance = inst\<rparr>"

definition sample_settings :: settings where
  "sample_settings = \<lparr>SERVER_HOST = ''0.0.0.0'', SERVER_PORT = 8000\<rparr>"

text \<open>
  The same environment with the ports \<open>lo\<close> to \<open>hi\<close> held by other listeners:
  a bind to one of them fails with \<^verbatim>\<open>EADDRINUSE\<close>.
\<close>

definition busy_env :: "int \<Rightarrow> int \<Rightarrow> env" where
  "busy_env lo hi =
     sample_env\<lparr>socket_bind :=
       (\<lambda>host port. if lo \<le> port \<and> port \<le> hi
                     then Some (Exc (OSError EADDRINUSE) ''[Errno 98] Address already in use'')
                     else socket_bind sample_env host port)\<rparr>"

text \<open>
  A body of 100000 opening brackets: it decodes as UTF-8, it is not JSON, and
  CPython's \<^verbatim>\<open>json.loads\<close> leaves it with \<^verbatim>\<open>RecursionError\<close>, which is not a
  \<^verbatim>\<open>JSONDecodeError\<close>. \<open>deep_env\<close> is the sample environment with this answer
  and with \<^verbatim>\<open>int('100000')\<close>.
\<close>

definition deep_array :: string where
  "deep_array = replicate 100000 (CHR ''['')"

definition deep_env :: env where
  "deep_env =
     sample_env\<lparr>int_str :=
       (\<lambda>s. if s = ''100000'' then Inr 100000 else int_str sample_env s),
     json_loads :=
       (\<lambda>t. if t = deep_array
            then Inl (Exc RecursionError
                   ''maximum recursion depth exceeded while decoding a JSON array from a unicode string'')
            else json_loads sample_env t)\<rparr>"

section \<open>The claims\<close>

subsection \<open>What the send methods write\<close>

lemma send_error_written:
  "send_json_response env
     (PDict [(''error'', PStr message),
             (''status_code'', PInt code),
             (''timestamp'', PStr (now_isoformat env))])
     code = Inr (send_error env code message)"
  by (simp add: send_json_response_def send_error_def)

lemma root_info_written:
  "send_json_response env root_info 200 = Inr (json_response root_info 200)"
  by (simp add: send_json_response_def root_info_def)

lemma health_info_written:
  "send_json_response env (health_info env inst) 200 = Inr (json_response (health_info env inst) 200)"
  by (simp add: send_json_response_def health_info_def)

subsection \<open>C1: a chat request when the default agent does not exist\<close>

text \<open>
  C1 (as amended). A POST to \<^verbatim>\<open>/chat\<close> whose body is read, decoded and parsed,
  and contains \<^verbatim>\<open>message\<close>, on a handler whose server instance has no default
  agent in its agent directory, is answered with HTTP status 200 (the default of
  \<^verbatim>\<open>_send_json_response\<close>, not 500); the body is the JSON object with
  \<^verbatim>\<open>status\<close> \<^verbatim>\<open>error\<close>, the message "ChatBot not initialised" of the source and a
  timestamp. No scheduler call is made and nothing is logged: the list of
  effects is empty.
\<close>

theorem chat_without_default_agent:
  assumes "urlparse_path env (path h) = Inr ''/chat''"
    and "py_int env (content_length h) = Inr n"
    and "rfile_read h n = Inr post_data"
    and "decode_utf8 env post_data = Inr txt"
    and "json_loads env txt = Inr request_data"
    and "py_contains request_data ''message'' = Inr True"
    and "server_instance h = Some srv"
    and "get_agent srv (default_chatbot_id srv) = None"
  shows "do_POST env h =
           (Inr \<lparr>status_code = 200,
                 headers = [(''Content-Type'', ''application/json''),
                            (''Access-Control-Allow-Origin'', ''*'')],
                 body = JsonBody (PDict [(''status'', PStr ''error''),
                                         (''message'', PStr msg_not_initialized),
                                         (''timestamp'', PStr (now_isoformat env))])\<rparr>,
            [])"
  using assms
  by (simp add: do_POST_def chat_try_def process_chat_sync_def process_chat_try_def
                send_json_response_def json_response_def)

text \<open>
  The theorem at the request \<^verbatim>\<open>{"message":"hello","session_id":"s1"}\<close> on a
  server without agents.
\<close>

theorem chat_without_default_agent_witness:
  "get_agent empty_server (default_chatbot_id empty_server) = None \<and>
   do_POST sample_env (sample_handler ''/chat'' (Some ''37'') body_hello (Some empty_server)) =
     (Inr \<lparr>status_code = 200,
           headers = [(''Content-Type'', ''application/json''),
                      (''Access-Control-Allow-Origin'', ''*'')],
           body = JsonBody (PDict [(''status'', PStr ''error''),
                                   (''message'', PStr msg_not_initialized),
                                   (''timestamp'', PStr ''2024-01-01T00:00:00.000000'')])\<rparr>,
      [])"
  using chat_without_default_agent
          [of sample_env "sample_handler ''/chat'' (Some ''37'') body_hello (Some empty_server)"
              37 body_hello body_hello
              "PDict [(''message'', PStr ''hello''), (''session_id'', PStr ''s1'')]"
              empty_server]
  by (simp add: sample_env_def sample_handler_def empty_server_def get_agent_def py_int_def
                rfile_of_def body_hello_def)

text \<open>
  C1 as stated fails: the same request is answered with status 200, not 500.
\<close>

theorem chat_without_default_agent_not_500:
  "get_agent empty_server (default_chatbot_id empty_server) = None \<and>
   (\<exists>r. fst (do_POST sample_env
                 (sample_handler ''/chat'' (Some ''37'') body_hello (Some empty_server))) = Inr r
        \<and> status_code r = 200 \<and> status_code r \<noteq> 500)"
  by (simp add: do_POST_def chat_try_def process_chat_sync_def process_chat_try_def
                send_json_response_def json_response_def sample_env_def sample_handler_def empty_server_def
                get_agent_def py_int_def rfile_of_def body_hello_def)

subsection \<open>C2: a missing or non-numeric Content-Length\<close>

text \<open>
  C2 (as amended). A POST to \<^verbatim>\<open>/chat\<close> without a \<^verbatim>\<open>Content-Length\<close> header, or
  with one that \<^verbatim>\<open>int\<close> rejects with \<^verbatim>\<open>ValueError\<close>, is answered with status 500
  (not 400): the \<^verbatim>\<open>TypeError\<close> or \<^verbatim>\<open>ValueError\<close> of \<^verbatim>\<open>int\<close> reaches the
  \<^verbatim>\<open>except Exception\<close> of \<^verbatim>\<open>do_POST\<close>, and the body is the error envelope whose
  message is "Internal server error: " followed by the text of the exception.
\<close>

theorem chat_bad_content_length:
  assumes "urlparse_path env (path h) = Inr ''/chat''"
  shows "(content_length h = None \<longrightarrow>
            do_POST env h =
              (Inr \<lparr>status_code = 500,
                    headers = [(''Content-Type'', ''application/json''),
                               (''Access-Control-Allow-Origin'', ''*'')],
                    body = JsonBody (PDict
                      [(''error'', PStr (''Internal server error: int() argument must be a string, a bytes-like object or a real number, not ''
                                         @ [CHR 0x27] @ ''NoneType'' @ [CHR 0x27])),
                       (''status_code'', PInt 500),
                       (''timestamp'', PStr (now_isoformat env))])\<rparr>,
               []))
       \<and> (\<forall>s m. content_length h = Some s \<and> int_str env s = Inl (Exc ValueError m) \<longrightarrow>
            do_POST env h =
              (Inr \<lparr>status_code = 500,
                    headers = [(''Content-Type'', ''application/json''),
                               (''Access-Control-Allow-Origin'', ''*'')],
                    body = JsonBody (PDict
                      [(''error'', PStr (''Internal server error: '' @ m)),
                       (''status_code'', PInt 500),
                       (''timestamp'', PStr (now_isoformat env))])\<rparr>,
               []))"
  using assms
  by (simp add: do_POST_def chat_try_def py_int_def send_error_def send_json_response_def json_response_def)

text \<open>
  The theorem at a request without the header and at one with the header
  \<^verbatim>\<open>Content-Length: abc\<close>.
\<close>

theorem chat_bad_content_length_witness:
  "do_POST sample_env (sample_handler ''/chat'' None body_hello (Some empty_server)) =
     (Inr \<lparr>status_code = 500,
           headers = [(''Content-Type'', ''application/json''),
                      (''Access-Control-Allow-Origin'', ''*'')],
           body = JsonBody (PDict
             [(''error'', PStr (''Internal server error: int() argument must be a string, a bytes-like object or a real number, not ''
                                @ [CHR 0x27] @ ''NoneType'' @ [CHR 0x27])),
              (''status_code'', PInt 500),
              (''timestamp'', PStr ''2024-01-01T00:00:00.000000'')])\<rparr>,
      [])
   \<and> do_POST sample_env (sample_handler ''/chat'' (Some ''abc'') body_hello (Some empty_server)) =
     (Inr \<lparr>status_code = 500,
           headers = [(''Content-Type'', ''application/json''),
                      (''Access-Control-Allow-Origin'', ''*'')],
           body = JsonBody (PDict
             [(''error'', PStr (''Internal server error: invalid literal for int() with base 10: ''
                                @ [CHR 0x27] @ ''abc'' @ [CHR 0x27])),
              (''status_code'', PInt 500),
              (''timestamp'', PStr ''2024-01-01T00:00:00.000000'')])\<rparr>,
      [])"
  using chat_bad_content_length
          [of sample_env "sample_handler ''/chat'' None body_hello (Some empty_server)"]
        chat_bad_content_length
          [of sample_env "sample_handler ''/chat'' (Some ''abc'') body_hello (Some empty_server)"]
  by (simp add: sample_env_def sample_handler_def)

text \<open>C2 as stated fails: a request without the header is answered 500, not 400.\<close>

theorem chat_missing_content_length_not_400:
  "content_length (sample_handler ''/chat'' None body_hello (Some empty_server)) = None \<and>
   (\<exists>r. fst (do_POST sample_env
                 (sample_handler ''/chat'' None body_hello (Some empty_server))) = Inr r
        \<and> status_code r = 500 \<and> status_code r \<noteq> 400)"
  by (simp add: do_POST_def chat_try_def send_error_def send_json_response_def json_response_def
                sample_env_def sample_handler_def py_int_def)

subsection \<open>C3: a bind failure other than address-in-use\<close>

text \<open>
  C3 (as amended). When the bind to the preferred port fails with an
  \<^verbatim>\<open>OSError\<close>, whatever its errno (a permission error and an unavailable address
  included), \<^verbatim>\<open>_is_port_in_use\<close> answers \<^verbatim>\<open>True\<close> and \<^verbatim>\<open>run\<close> goes on to probe the
  following ports with \<^verbatim>\<open>_find_free_port\<close>. Only a failure that is not an
  \<^verbatim>\<open>OSError\<close> leaves \<^verbatim>\<open>_is_port_in_use\<close> and \<^verbatim>\<open>run\<close> at once, with no probing.
\<close>

theorem bind_failure_in_run:
  assumes "socket_bind env host port = Some e" and "host \<noteq> []" and "port \<noteq> 0"
  shows "(is_OSError e \<longrightarrow>
            is_port_in_use env host port = Inr True \<and>
            run_port env cfg (Some host) (Some port) = find_free_port env host port)
       \<and> (\<not> is_OSError e \<longrightarrow>
            is_port_in_use env host port = Inl e \<and>
            run_port env cfg (Some host) (Some port) = Inl e)"
  using assms by (simp add: is_port_in_use_def run_port_def)

text \<open>
  The theorem at port 1023, refused with \<^verbatim>\<open>EACCES\<close>, and at port 70000, for
  which \<^verbatim>\<open>bind\<close> raises \<^verbatim>\<open>OverflowError\<close>.
\<close>

theorem bind_failure_in_run_witness:
  "is_port_in_use sample_env ''0.0.0.0'' 1023 = Inr True \<and>
   run_port sample_env sample_settings (Some ''0.0.0.0'') (Some 1023)
     = find_free_port sample_env ''0.0.0.0'' 1023 \<and>
   is_port_in_use sample_env ''0.0.0.0'' 70000
     = Inl (Exc OverflowError ''bind(): port must be 0-65535.'') \<and>
   run_port sample_env sample_settings (Some ''0.0.0.0'') (Some 70000)
     = Inl (Exc OverflowError ''bind(): port must be 0-65535.'')"
  using bind_failure_in_run
          [of sample_env "''0.0.0.0''" 1023
              "Exc (OSError EACCES) ''[Errno 13] Permission denied''" sample_settings]
        bind_failure_in_run
          [of sample_env "''0.0.0.0''" 70000
              "Exc OverflowError ''bind(): port must be 0-65535.''" sample_settings]
  by (simp add: sample_env_def)

text \<open>
  C3 as stated fails: the permission error at port 1023 is not propagated;
  the port counts as occupied, the search goes on and \<^verbatim>\<open>run\<close> continues on
  port 1024.
\<close>

theorem permission_error_triggers_probing:
  "socket_bind sample_env ''0.0.0.0'' 1023
     = Some (Exc (OSError EACCES) ''[Errno 13] Permission denied'') \<and>
   is_port_in_use sample_env ''0.0.0.0'' 1023 = Inr True \<and>
   run_port sample_env sample_settings (Some ''0.0.0.0'') (Some 1023) = Inr 1024"
  by code_simp

subsection \<open>C4: the search window of ninety-nine ports\<close>

lemma is_port_in_use_OSError:
  "socket_bind env host q = Some e \<Longrightarrow> is_OSError e \<Longrightarrow> is_port_in_use env host q = Inr True"
  by (simp add: is_port_in_use_def)

lemma is_port_in_use_free:
  "socket_bind env host q = None \<Longrightarrow> is_port_in_use env host q = Inr False"
  by (simp add: is_port_in_use_def)

lemma is_port_in_use_raises:
  "socket_bind env host q = Some e \<Longrightarrow> \<not> is_OSError e \<Longrightarrow> is_port_in_use env host q = Inl e"
  by (simp add: is_port_in_use_def)

text \<open>The loop passes over a run of ports that all count as occupied.\<close>

lemma find_free_port_loop_skip:
  "\<forall>q\<in>set qs. is_port_in_use env host q = Inr True \<Longrightarrow>
   find_free_port_loop env host (qs @ rest) = find_free_port_loop env host rest"
  by (induction qs) simp_all

text \<open>
  C4 (as amended). When the bind to the preferred port \<open>start\<close> fails because
  the address is in use (an \<^verbatim>\<open>OSError\<close>), \<^verbatim>\<open>run\<close> takes its port from
  \<^verbatim>\<open>_find_free_port\<close>, which probes \<open>start + 1\<close> to \<open>start + 99\<close> in order. It
  returns the first port \<open>p\<close> of the window whose bind succeeds, every port
  before it having failed with an \<^verbatim>\<open>OSError\<close>. When all ninety-nine binds fail
  with an \<^verbatim>\<open>OSError\<close> it raises the \<^verbatim>\<open>RuntimeError\<close> "no free port found", the
  spec's \<^verbatim>\<open>PortExhaustedError\<close>. And when the bind of a port \<open>p\<close> of the window
  raises an exception that is not an \<^verbatim>\<open>OSError\<close>, every port before it having
  failed with an \<^verbatim>\<open>OSError\<close>, the search ends with that exception: this is
  what happens at port 65536, for which \<^verbatim>\<open>bind\<close> raises \<^verbatim>\<open>OverflowError\<close>.
\<close>

theorem find_free_port_window:
  assumes "socket_bind env host start = Some e" and "is_OSError e"
    and "host \<noteq> []" and "start \<noteq> 0"
  shows "run_port env cfg (Some host) (Some start) = find_free_port env host start
       \<and> (\<forall>p. start + 1 \<le> p \<and> p \<le> start + 99
               \<and> socket_bind env host p = None
               \<and> (\<forall>q. start + 1 \<le> q \<and> q < p \<longrightarrow>
                      (\<exists>e'. socket_bind env host q = Some e' \<and> is_OSError e'))
             \<longrightarrow> find_free_port env host start = Inr p)
       \<and> ((\<forall>q. start + 1 \<le> q \<and> q \<le> start + 99 \<longrightarrow>
                      (\<exists>e'. socket_bind env host q = Some e' \<and> is_OSError e'))
             \<longrightarrow> find_free_port env host start = Inl (Exc RuntimeError msg_no_free_port))
       \<and> (\<forall>p x. start + 1 \<le> p \<and> p \<le> start + 99
               \<and> socket_bind env host p = Some x \<and> \<not> is_OSError x
               \<and> (\<forall>q. start + 1 \<le> q \<and> q < p \<longrightarrow>
                      (\<exists>e'. socket_bind env host q = Some e' \<and> is_OSError e'))
             \<longrightarrow> find_free_port env host start = Inl x)"
proof (intro conjI allI impI)
  show "run_port env cfg (Some host) (Some start) = find_free_port env host start"
    using assms by (simp add: run_port_def is_port_in_use_OSError)
next
  fix p
  assume h: "start + 1 \<le> p \<and> p \<le> start + 99 \<and> socket_bind env host p = None
             \<and> (\<forall>q. start + 1 \<le> q \<and> q < p \<longrightarrow>
                    (\<exists>e'. socket_bind env host q = Some e' \<and> is_OSError e'))"
  then have split: "[start + 1..start + 99] = [start + 1..p - 1] @ p # [p + 1..start + 99]"
    by (simp add: upto_split3)
  have busy: "\<forall>q\<in>set [start + 1..p - 1]. is_port_in_use env host q = Inr True"
    using h by (auto intro: is_port_in_use_OSError)
  have "find_free_port env host start = find_free_port_loop env host (p # [p + 1..start + 99])"
    unfolding find_free_port_def split by (rule find_free_port_loop_skip [OF busy])
  also have "\<dots> = Inr p"
    using h by (simp add: is_port_in_use_free)
  finally show "find_free_port env host start = Inr p" .
next
  assume h: "\<forall>q. start + 1 \<le> q \<and> q \<le> start + 99 \<longrightarrow>
               (\<exists>e'. socket_bind env host q = Some e' \<and> is_OSError e')"
  have busy: "\<forall>q\<in>set [start + 1..start + 99]. is_port_in_use env host q = Inr True"
    using h by (auto intro: is_port_in_use_OSError)
  have "find_free_port env host start = find_free_port_loop env host ([start + 1..start + 99] @ [])"
    by (simp add: find_free_port_def)
  also have "\<dots> = find_free_port_loop env host []"
    by (rule find_free_port_loop_skip [OF busy])
  finally show "find_free_port env host start = Inl (Exc RuntimeError msg_no_free_port)"
    by simp
next
  fix p x
  assume h: "start + 1 \<le> p \<and> p \<le> start + 99
             \<and> socket_bind env host p = Some x \<and> \<not> is_OSError x
             \<and> (\<forall>q. start + 1 \<le> q \<and> q < p \<longrightarrow>
                    (\<exists>e'. socket_bind env host q = Some e' \<and> is_OSError e'))"
  then have split: "[start + 1..start + 99] = [start + 1..p - 1] @ p # [p + 1..start + 99]"
    by (simp add: upto_split3)
  have busy: "\<forall>q\<in>set [start + 1..p - 1]. is_port_in_use env host q = Inr True"
    using h by (auto intro: is_port_in_use_OSError)
  have "find_free_port env host start = find_free_port_loop env host (p # [p + 1..start + 99])"
    unfolding find_free_port_def split by (rule find_free_port_loop_skip [OF busy])
  also have "\<dots> = Inl x"
    using h by (simp add: is_port_in_use_raises)
  finally show "find_free_port env host start = Inl x" .
qed

text \<open>
  The theorem with the ports 8000 to 8002 occupied (the search from 8000 ends
  at 8003), with 8000 to 8099 occupied (the window is exhausted), and with
  65500 to 65535 occupied (the search from 65500 ends at port 65536 with the
  \<^verbatim>\<open>OverflowError\<close> of \<^verbatim>\<open>bind\<close>).
\<close>

theorem find_free_port_window_witness:
  "run_port (busy_env 8000 8002) sample_settings (Some ''0.0.0.0'') (Some 8000) = Inr 8003 \<and>
   run_port (busy_env 8000 8099) sample_settings (Some ''0.0.0.0'') (Some 8000)
     = Inl (Exc RuntimeError msg_no_free_port) \<and>
   run_port (busy_env 65500 65535) sample_settings (Some ''0.0.0.0'') (Some 65500)
     = Inl (Exc OverflowError ''bind(): port must be 0-65535.'')"
proof -
  let ?busy = "Exc (OSError EADDRINUSE) ''[Errno 98] Address already in use''"
  have a: "socket_bind (busy_env 8000 8002) ''0.0.0.0'' 8000 = Some ?busy"
    by (simp add: busy_env_def)
  have b: "socket_bind (busy_env 8000 8099) ''0.0.0.0'' 8000 = Some ?busy"
    by (simp add: busy_env_def)
  have c: "socket_bind (busy_env 65500 65535) ''0.0.0.0'' 65500 = Some ?busy"
    by (simp add: busy_env_def)
  have ok: "is_OSError ?busy" "''0.0.0.0'' \<noteq> []" "(8000::int) \<noteq> 0"
    by simp_all
  have ok': "is_OSError ?busy" "''0.0.0.0'' \<noteq> []" "(65500::int) \<noteq> 0"
    by simp_all
  note first = find_free_port_window [OF a ok, of sample_settings]
  note none = find_free_port_window [OF b ok, of sample_settings]
  note over = find_free_port_window [OF c ok', of sample_settings]
  have "find_free_port (busy_env 8000 8002) ''0.0.0.0'' 8000 = Inr 8003"
    using first by (simp add: busy_env_def sample_env_def)
  moreover have "find_free_port (busy_env 8000 8099) ''0.0.0.0'' 8000
                   = Inl (Exc RuntimeError msg_no_free_port)"
    using none by (simp add: busy_env_def sample_env_def)
  moreover have "find_free_port (busy_env 65500 65535) ''0.0.0.0'' 65500
                   = Inl (Exc OverflowError ''bind(): port must be 0-65535.'')"
  proof -
    from over have
      "65500 + 1 \<le> (65536::int) \<and> (65536::int) \<le> 65500 + 99
         \<and> socket_bind (busy_env 65500 65535) ''0.0.0.0'' 65536
             = Some (Exc OverflowError ''bind(): port must be 0-65535.'')
         \<and> \<not> is_OSError (Exc OverflowError ''bind(): port must be 0-65535.'')
         \<and> (\<forall>q. 65500 + 1 \<le> q \<and> q < 65536 \<longrightarrow>
               (\<exists>e'. socket_bind (busy_env 65500 65535) ''0.0.0.0'' q = Some e' \<and> is_OSError e'))
       \<longrightarrow> find_free_port (busy_env 65500 65535) ''0.0.0.0'' 65500
             = Inl (Exc OverflowError ''bind(): port must be 0-65535.'')"
      by blast
    then show ?thesis
      by (simp add: busy_env_def sample_env_def)
  qed
  ultimately show ?thesis
    using first none over by simp
qed

text \<open>
  C4 as stated fails. From the preferred port 65500, with every port up to
  65535 occupied, no port of the window 65501 to 65599 can be bound; the search
  does not end with the \<^verbatim>\<open>RuntimeError\<close> but with the \<^verbatim>\<open>OverflowError\<close> that
  \<^verbatim>\<open>bind\<close> raises for port 65536, which \<^verbatim>\<open>except socket.error\<close> does not take.
\<close>

theorem window_beyond_last_port:
  "socket_bind (busy_env 65500 65535) ''0.0.0.0'' 65500
     = Some (Exc (OSError EADDRINUSE) ''[Errno 98] Address already in use'') \<and>
   list_all (\<lambda>q. socket_bind (busy_env 65500 65535) ''0.0.0.0'' q \<noteq> None) [65501..65599] \<and>
   run_port (busy_env 65500 65535) sample_settings (Some ''0.0.0.0'') (Some 65500)
     = Inl (Exc OverflowError ''bind(): port must be 0-65535.'') \<and>
   Exc OverflowError ''bind(): port must be 0-65535.'' \<noteq> Exc RuntimeError msg_no_free_port"
  by code_simp
subsection \<open>C5: exceptions raised in a handler\<close>




subsection \<open>C6: a chat request that the agent answers\<close>

lemma py_contains_key:
  "map_of kvs k = Some v \<Longrightarrow> py_contains (PDict kvs) k = Inr True"
  by (auto dest: map_of_SomeD intro: image_eqI [where x = "(k, v)"])

text \<open>
  C6 (as amended). A POST to \<^verbatim>\<open>/chat\<close> whose body parses to a JSON object
  with a \<^verbatim>\<open>message\<close> and a \<^verbatim>\<open>session_id\<close>, on a server whose default agent
  exists, with an event loop at hand (\<^verbatim>\<open>get_event_loop\<close> returns one, or raises
  \<^verbatim>\<open>RuntimeError\<close> and \<^verbatim>\<open>new_event_loop\<close> returns one) and an agent whose
  \<^verbatim>\<open>process\<close> returns a dict with \<^verbatim>\<open>status\<close> \<^verbatim>\<open>success\<close> and a \<^verbatim>\<open>response\<close>,
  where the response, the session id and the reported length hold no lone
  surrogate (UTF-8 can encode them), is answered with status 200 and the object
  of \<^verbatim>\<open>status\<close> \<^verbatim>\<open>success\<close>, the agent's response, the request's session id, a
  timestamp, and as \<^verbatim>\<open>conversation_length\<close> the value the agent's result
  carries, 0 when it carries none. The agent is called once, through
  \<^verbatim>\<open>run_until_complete\<close>.
\<close>

theorem chat_success:
  assumes "urlparse_path env (path h) = Inr ''/chat''"
    and "py_int env (content_length h) = Inr n"
    and "rfile_read h n = Inr post_data"
    and "decode_utf8 env post_data = Inr txt"
    and "json_loads env txt = Inr (PDict kvs)"
    and "map_of kvs ''message'' = Some m"
    and "map_of kvs ''session_id'' = Some sid"
    and "server_instance h = Some srv"
    and "get_agent srv (default_chatbot_id srv) = Some chatbot"
    and "acquire_loop env = (None, fx)"
    and "chatbot (PDict [(''message'', m), (''session_id'', sid),
                         (''context'', case map_of kvs ''context'' of
                                         Some c \<Rightarrow> c | None \<Rightarrow> PDict [])])
           = Inr (PDict res)"
    and "map_of res ''status'' = Some (PStr ''success'')"
    and "map_of res ''response'' = Some resp"
    and "encodable resp"
    and "encodable sid"
    and "encodable (case map_of res ''conversation_length'' of
                      Some c \<Rightarrow> c | None \<Rightarrow> PInt 0)"
  shows "do_POST env h =
           (Inr \<lparr>status_code = 200,
                 headers = [(''Content-Type'', ''application/json''),
                            (''Access-Control-Allow-Origin'', ''*'')],
                 body = JsonBody (PDict
                   [(''status'', PStr ''success''),
                    (''response'', resp),
                    (''session_id'', sid),
                    (''timestamp'', PStr (now_isoformat env)),
                    (''conversation_length'',
                       case map_of res ''conversation_length'' of
                         Some c \<Rightarrow> c | None \<Rightarrow> PInt 0)])\<rparr>,
            fx @ [RunUntilComplete
                    (PDict [(''message'', m), (''session_id'', sid),
                            (''context'', case map_of kvs ''context'' of
                                            Some c \<Rightarrow> c | None \<Rightarrow> PDict [])])])"
proof -
  have has: "py_contains (PDict kvs) ''message'' = Inr True"
    using assms(6) by (rule py_contains_key)
  have arg: "agent_request (PDict kvs) =
               Inr (PDict [(''message'', m), (''session_id'', sid),
                           (''context'', case map_of kvs ''context'' of
                                           Some c \<Rightarrow> c | None \<Rightarrow> PDict [])])"
    using assms(6,7) by (simp add: agent_request_def)
  have res: "chat_result env (PDict kvs) (PDict res) =
               Inr (PDict [(''status'', PStr ''success''),
                           (''response'', resp),
                           (''session_id'', sid),
                           (''timestamp'', PStr (now_isoformat env)),
                           (''conversation_length'',
                              case map_of res ''conversation_length'' of
                                Some c \<Rightarrow> c | None \<Rightarrow> PInt 0)])"
    using assms(7,12,13) by (simp add: chat_result_def)
  have sync: "process_chat_sync env srv (PDict kvs) =
          (Inr (PDict [(''status'', PStr ''success''),
                       (''response'', resp),
                       (''session_id'', sid),
                       (''timestamp'', PStr (now_isoformat env)),
                       (''conversation_length'',
                          case map_of res ''conversation_length'' of
                            Some c \<Rightarrow> c | None \<Rightarrow> PInt 0)]),
           fx @ [RunUntilComplete
                   (PDict [(''message'', m), (''session_id'', sid),
                           (''context'', case map_of kvs ''context'' of
                                           Some c \<Rightarrow> c | None \<Rightarrow> PDict [])])])"
    using assms(9,10,11) arg res
    by (simp add: process_chat_sync_def process_chat_try_def)
  have written: "send_json_response env
          (PDict [(''status'', PStr ''success''),
                  (''response'', resp),
                  (''session_id'', sid),
                  (''timestamp'', PStr (now_isoformat env)),
                  (''conversation_length'',
                     case map_of res ''conversation_length'' of
                       Some c \<Rightarrow> c | None \<Rightarrow> PInt 0)]) 200 =
        Inr (json_response
          (PDict [(''status'', PStr ''success''),
                  (''response'', resp),
                  (''session_id'', sid),
                  (''timestamp'', PStr (now_isoformat env)),
                  (''conversation_length'',
                     case map_of res ''conversation_length'' of
                       Some c \<Rightarrow> c | None \<Rightarrow> PInt 0)]) 200)"
    using assms(14,15,16) by (simp add: send_json_response_def)
  show ?thesis
    using assms(1-5,8) has sync written
    by (simp add: do_POST_def chat_try_def json_response_def)
qed

text \<open>
  The theorem at the request \<^verbatim>\<open>{"message":"hello","session_id":"s1"}\<close> and an
  agent that reports a conversation of length 1.
\<close>

theorem chat_success_witness:
  "do_POST sample_env
     (sample_handler ''/chat'' (Some ''37'') body_hello
        (Some (sample_server (PDict [(''status'', PStr ''success''),
                                     (''response'', PStr ''hi''),
                                     (''conversation_length'', PInt 1)])))) =
     (Inr \<lparr>status_code = 200,
           headers = [(''Content-Type'', ''application/json''),
                      (''Access-Control-Allow-Origin'', ''*'')],
           body = JsonBody (PDict
             [(''status'', PStr ''success''),
              (''response'', PStr ''hi''),
              (''session_id'', PStr ''s1''),
              (''timestamp'', PStr ''2024-01-01T00:00:00.000000''),
              (''conversation_length'', PInt 1)])\<rparr>,
      [GetEventLoop,
       RunUntilComplete (PDict [(''message'', PStr ''hello''), (''session_id'', PStr ''s1''),
                                (''context'', PDict [])])])"
  using chat_success
          [of sample_env
              "sample_handler ''/chat'' (Some ''37'') body_hello
                 (Some (sample_server (PDict [(''status'', PStr ''success''),
                                              (''response'', PStr ''hi''),
                                              (''conversation_length'', PInt 1)])))"
              37 body_hello body_hello
              "[(''message'', PStr ''hello''), (''session_id'', PStr ''s1'')]"
              "PStr ''hello''" "PStr ''s1''"
              "sample_server (PDict [(''status'', PStr ''success''),
                                     (''response'', PStr ''hi''),
                                     (''conversation_length'', PInt 1)])"
              "reply_agent (PDict [(''status'', PStr ''success''),
                                   (''response'', PStr ''hi''),
                                   (''conversation_length'', PInt 1)])"
              "[GetEventLoop]"
              "[(''status'', PStr ''success''), (''response'', PStr ''hi''),
                (''conversation_length'', PInt 1)]"
              "PStr ''hi''"]
  by (simp add: sample_env_def sample_handler_def sample_server_def reply_agent_def
                get_agent_def py_int_def rfile_of_def body_hello_def acquire_loop_def)

text \<open>
  C6 as stated fails, in the source itself, whatever the agent answers with
  its \<^verbatim>\<open>success\<close>. The body \<^verbatim>\<open>{"message":"hi","session_id":"\ud800"}\<close> is valid
  JSON with a message and a session id. \<^verbatim>\<open>_send_json_response\<close> flushes the
  head of the 200 response, then encoding the echoed session id raises
  \<^verbatim>\<open>UnicodeEncodeError\<close>, and the \<^verbatim>\<open>except\<close> of \<^verbatim>\<open>do_POST\<close> writes a 500
  error response after that head: the session id is not echoed.

  The second half is the default of line 231: for a \<^verbatim>\<open>success\<close> result that
  carries no \<^verbatim>\<open>conversation_length\<close> the source itself answers 0, which is
  not at least 1.
\<close>

theorem chat_success_not_echoed:
  "json_loads sample_env body_surrogate
     = Inr (PDict [(''message'', PStr ''hi''),
                   (''session_id'', PStrSurrogate [CHR 0xED, CHR 0xA0, CHR 0x80])]) \<and>
   do_POST sample_env
     (sample_handler ''/chat'' (Some ''38'') body_surrogate
        (Some (sample_server (PDict [(''status'', PStr ''success''),
                                     (''response'', PStr ''hi''),
                                     (''conversation_length'', PInt 1)])))) =
     (Inr \<lparr>status_code = 500,
           headers = [(''Content-Type'', ''application/json''),
                      (''Access-Control-Allow-Origin'', ''*'')],
           body = JsonBody (PDict
             [(''error'', PStr (''Internal server error: '' @ [CHR 0x27] @ ''utf-8'' @ [CHR 0x27]
                                @ '' codec can't encode character '' @ [CHR 0x27, CHR 0x5C]
                                @ ''ud800'' @ [CHR 0x27]
                                @ '' in position 62: surrogates not allowed'')),
              (''status_code'', PInt 500),
              (''timestamp'', PStr ''2024-01-01T00:00:00.000000'')])\<rparr>,
      [GetEventLoop,
       RunUntilComplete (PDict [(''message'', PStr ''hi''),
                                (''session_id'', PStrSurrogate [CHR 0xED, CHR 0xA0, CHR 0x80]),
                                (''context'', PDict [])]),
       FlushedHead 200 [(''Content-Type'', ''application/json''),
                        (''Access-Control-Allow-Origin'', ''*'')]]) \<and>
   do_POST sample_env
     (sample_handler ''/chat'' (Some ''37'') body_hello
        (Some (sample_server (PDict [(''status'', PStr ''success''),
                                     (''response'', PStr ''hi'')])))) =
     (Inr \<lparr>status_code = 200,
           headers = [(''Content-Type'', ''application/json''),
                      (''Access-Control-Allow-Origin'', ''*'')],
           body = JsonBody (PDict
             [(''status'', PStr ''success''),
              (''response'', PStr ''hi''),
              (''session_id'', PStr ''s1''),
              (''timestamp'', PStr ''2024-01-01T00:00:00.000000''),
              (''conversation_length'', PInt 0)])\<rparr>,
      [GetEventLoop,
       RunUntilComplete (PDict [(''message'', PStr ''hello''), (''session_id'', PStr ''s1''),
                                (''context'', PDict [])])]) \<and>
   \<not> (1::int) \<le> 0"
  by code_simp

subsection \<open>C7: a chat request without a message\<close>

text \<open>
  C7 (as amended). A POST to \<^verbatim>\<open>/chat\<close> whose body parses to a JSON object
  without the key \<^verbatim>\<open>message\<close> is answered with status 400 and the error
  envelope with the message "Missing 'message' field". Only the presence of the
  key is tested.
\<close>

theorem chat_missing_message:
  assumes "urlparse_path env (path h) = Inr ''/chat''"
    and "py_int env (content_length h) = Inr n"
    and "rfile_read h n = Inr post_data"
    and "decode_utf8 env post_data = Inr txt"
    and "json_loads env txt = Inr (PDict kvs)"
    and "''message'' \<notin> set (map fst kvs)"
  shows "do_POST env h =
           (Inr \<lparr>status_code = 400,
                 headers = [(''Content-Type'', ''application/json''),
                            (''Access-Control-Allow-Origin'', ''*'')],
                 body = JsonBody (PDict
                   [(''error'', PStr ''Missing 'message' field''),
                    (''status_code'', PInt 400),
                    (''timestamp'', PStr (now_isoformat env))])\<rparr>,
            [])"
  using assms
  by (simp add: do_POST_def chat_try_def send_error_def send_json_response_def json_response_def)

text \<open>The theorem at the body \<^verbatim>\<open>{}\<close>.\<close>

theorem chat_missing_message_witness:
  "do_POST sample_env (sample_handler ''/chat'' (Some ''2'') ''{}'' (Some empty_server)) =
     (Inr \<lparr>status_code = 400,
           headers = [(''Content-Type'', ''application/json''),
                      (''Access-Control-Allow-Origin'', ''*'')],
           body = JsonBody (PDict
             [(''error'', PStr ''Missing 'message' field''),
              (''status_code'', PInt 400),
              (''timestamp'', PStr ''2024-01-01T00:00:00.000000'')])\<rparr>,
      [])"
  using chat_missing_message
          [of sample_env "sample_handler ''/chat'' (Some ''2'') ''{}'' (Some empty_server)"
              2 "''{}''" "''{}''" "[]"]
  by (simp add: sample_env_def sample_handler_def py_int_def rfile_of_def body_hello_def
                body_empty_message_def)

text \<open>
  C7 as stated fails: the body \<^verbatim>\<open>{"message":""}\<close> holds no non-empty message,
  yet it passes the test and is answered with status 200.
\<close>

theorem chat_empty_message_accepted:
  "json_loads sample_env body_empty_message = Inr (PDict [(''message'', PStr [])]) \<and>
   (\<exists>r. fst (do_POST sample_env
                 (sample_handler ''/chat'' (Some ''14'') body_empty_message
                    (Some (sample_server (PDict [(''status'', PStr ''success''),
                                                 (''response'', PStr ''hi''),
                                                 (''conversation_length'', PInt 1)]))))) = Inr r
        \<and> status_code r = 200 \<and> status_code r \<noteq> 400)"
  by (simp add: do_POST_def chat_try_def process_chat_sync_def process_chat_try_def
                chat_result_def agent_request_def acquire_loop_def
                send_json_response_def json_response_def sample_env_def sample_handler_def sample_server_def
                reply_agent_def get_agent_def py_int_def rfile_of_def body_hello_def
                body_empty_message_def)

subsection \<open>C8: a body that is not JSON\<close>

text \<open>
  C8 (as amended). A POST to \<^verbatim>\<open>/chat\<close> whose body, read and decoded as
  UTF-8, is rejected by \<^verbatim>\<open>json.loads\<close> with \<^verbatim>\<open>JSONDecodeError\<close> is answered with
  status 400 and the error envelope with the message "Invalid JSON". When
  \<^verbatim>\<open>json.loads\<close> leaves the body with another exception deriving from
  \<^verbatim>\<open>Exception\<close>, the inner \<^verbatim>\<open>except\<close> does not take it and the answer is status
  500 with the message "Internal server error: " followed by its text.
\<close>

theorem chat_invalid_json:
  assumes "urlparse_path env (path h) = Inr ''/chat''"
    and "py_int env (content_length h) = Inr n"
    and "rfile_read h n = Inr post_data"
    and "decode_utf8 env post_data = Inr txt"
    and "json_loads env txt = Inl e"
  shows "(is_JSONDecodeError e \<longrightarrow>
            do_POST env h =
              (Inr \<lparr>status_code = 400,
                    headers = [(''Content-Type'', ''application/json''),
                               (''Access-Control-Allow-Origin'', ''*'')],
                    body = JsonBody (PDict
                      [(''error'', PStr ''Invalid JSON''),
                       (''status_code'', PInt 400),
                       (''timestamp'', PStr (now_isoformat env))])\<rparr>,
               []))
       \<and> (\<not> is_JSONDecodeError e \<and> is_Exception e \<longrightarrow>
            do_POST env h =
              (Inr \<lparr>status_code = 500,
                    headers = [(''Content-Type'', ''application/json''),
                               (''Access-Control-Allow-Origin'', ''*'')],
                    body = JsonBody (PDict
                      [(''error'', PStr (''Internal server error: '' @ exc_str e)),
                       (''status_code'', PInt 500),
                       (''timestamp'', PStr (now_isoformat env))])\<rparr>,
               []))"
  using assms
  by (simp add: do_POST_def chat_try_def send_error_def json_response_def)

text \<open>The theorem at the body \<^verbatim>\<open>not-json\<close>.\<close>

theorem chat_invalid_json_witness:
  "json_loads sample_env ''not-json''
     = Inl (Exc JSONDecodeError ''Expecting value: line 1 column 1 (char 0)'') \<and>
   do_POST sample_env (sample_handler ''/chat'' (Some ''8'') ''not-json'' (Some empty_server)) =
     (Inr \<lparr>status_code = 400,
           headers = [(''Content-Type'', ''application/json''),
                      (''Access-Control-Allow-Origin'', ''*'')],
           body = JsonBody (PDict
             [(''error'', PStr ''Invalid JSON''),
              (''status_code'', PInt 400),
              (''timestamp'', PStr ''2024-01-01T00:00:00.000000'')])\<rparr>,
      [])"
  using chat_invalid_json
          [of sample_env "sample_handler ''/chat'' (Some ''8'') ''not-json'' (Some empty_server)"
              8 "''not-json''" "''not-json''"
              "Exc JSONDecodeError ''Expecting value: line 1 column 1 (char 0)''"]
  by (simp add: sample_env_def sample_handler_def py_int_def rfile_of_def body_hello_def
                body_empty_message_def body_surrogate_def)

lemma length_deep_array: "length deep_array = 100000"
  unfolding deep_array_def by (rule length_replicate)

lemma read_deep_array: "rfile_of deep_array 100000 = Inr deep_array"
  by (simp add: rfile_of_def length_deep_array)

text \<open>
  C8 as stated fails: the body of 100000 opening brackets decodes as UTF-8 and
  is not JSON, \<^verbatim>\<open>json.loads\<close> leaves it with \<^verbatim>\<open>RecursionError\<close>, and the answer
  is status 500, not 400.
\<close>

theorem deep_array_answered_500:
  "decode_utf8 deep_env deep_array = Inr deep_array \<and>
   json_loads deep_env deep_array
     = Inl (Exc RecursionError
         ''maximum recursion depth exceeded while decoding a JSON array from a unicode string'') \<and>
   do_POST deep_env (sample_handler ''/chat'' (Some ''100000'') deep_array (Some empty_server)) =
     (Inr \<lparr>status_code = 500,
           headers = [(''Content-Type'', ''application/json''),
                      (''Access-Control-Allow-Origin'', ''*'')],
           body = JsonBody (PDict
             [(''error'', PStr (''Internal server error: '' @
                 ''maximum recursion depth exceeded while decoding a JSON array from a unicode string'')),
              (''status_code'', PInt 500),
              (''timestamp'', PStr ''2024-01-01T00:00:00.000000'')])\<rparr>,
      []) \<and>
   (500::int) \<noteq> 400"
  by (simp add: do_POST_def chat_try_def send_error_def json_response_def py_int_def
                deep_env_def sample_env_def sample_handler_def read_deep_array)

subsection \<open>C9: a request that matches no route\<close>

text \<open>
  C9 (as amended). For a request whose target \<^verbatim>\<open>urlparse\<close> accepts, with
  \<open>p\<close> the path it returns: a GET for a path other than \<^verbatim>\<open>/\<close>, \<^verbatim>\<open>/health\<close> and
  \<^verbatim>\<open>/docs\<close>, and a POST for a path other than \<^verbatim>\<open>/chat\<close>, is answered with
  status 404 and the error envelope with the fields \<^verbatim>\<open>error\<close>,
  \<^verbatim>\<open>status_code\<close> and \<^verbatim>\<open>timestamp\<close>.
\<close>

theorem unmatched_route_404:
  assumes "urlparse_path env (path h) = Inr p"
  shows "(p \<noteq> ''/'' \<and> p \<noteq> ''/health'' \<and> p \<noteq> ''/docs'' \<longrightarrow>
            do_GET env h =
              Inr \<lparr>status_code = 404,
                   headers = [(''Content-Type'', ''application/json''),
                              (''Access-Control-Allow-Origin'', ''*'')],
                   body = JsonBody (PDict
                     [(''error'', PStr ''Not Found''),
                      (''status_code'', PInt 404),
                      (''timestamp'', PStr (now_isoformat env))])\<rparr>)
       \<and> (p \<noteq> ''/chat'' \<longrightarrow>
            do_POST env h =
              (Inr \<lparr>status_code = 404,
                    headers = [(''Content-Type'', ''application/json''),
                               (''Access-Control-Allow-Origin'', ''*'')],
                    body = JsonBody (PDict
                      [(''error'', PStr ''Not Found''),
                       (''status_code'', PInt 404),
                       (''timestamp'', PStr (now_isoformat env))])\<rparr>,
               []))"
  using assms
  by (simp add: do_GET_def do_POST_def send_error_def send_json_response_def json_response_def)

text \<open>The theorem at GET \<^verbatim>\<open>/nope\<close> and at POST \<^verbatim>\<open>/health\<close>.\<close>

theorem unmatched_route_404_witness:
  "do_GET sample_env (sample_handler ''/nope'' None [] (Some empty_server)) =
     Inr \<lparr>status_code = 404,
          headers = [(''Content-Type'', ''application/json''),
                     (''Access-Control-Allow-Origin'', ''*'')],
          body = JsonBody (PDict
            [(''error'', PStr ''Not Found''),
             (''status_code'', PInt 404),
             (''timestamp'', PStr ''2024-01-01T00:00:00.000000'')])\<rparr> \<and>
   do_POST sample_env (sample_handler ''/health'' (Some ''2'') ''{}'' (Some empty_server)) =
     (Inr \<lparr>status_code = 404,
           headers = [(''Content-Type'', ''application/json''),
                      (''Access-Control-Allow-Origin'', ''*'')],
           body = JsonBody (PDict
             [(''error'', PStr ''Not Found''),
              (''status_code'', PInt 404),
              (''timestamp'', PStr ''2024-01-01T00:00:00.000000'')])\<rparr>,
      [])"
  using unmatched_route_404
          [of sample_env "sample_handler ''/nope'' None [] (Some empty_server)" "''/nope''"]
        unmatched_route_404
          [of sample_env "sample_handler ''/health'' (Some ''2'') ''{}'' (Some empty_server)"
              "''/health''"]
  by (simp add: sample_env_def sample_handler_def)

text \<open>
  C9 as stated fails: the request target \<^verbatim>\<open>http://]/nope\<close> matches no route,
  and neither handler answers it. \<^verbatim>\<open>urlparse\<close> raises \<^verbatim>\<open>ValueError\<close> before the
  route test, outside every \<^verbatim>\<open>try\<close>, and nothing is written.
\<close>

theorem unparsed_target_without_response:
  "urlparse_path sample_env ''http://]/nope'' = Inl (Exc ValueError ''Invalid IPv6 URL'') \<and>
   do_GET sample_env (sample_handler ''http://]/nope'' None [] (Some empty_server))
     = Inl (Exc ValueError ''Invalid IPv6 URL'') \<and>
   do_POST sample_env (sample_handler ''http://]/nope'' (Some ''2'') ''{}'' (Some empty_server))
     = (Inl (Exc ValueError ''Invalid IPv6 URL''), [])"
  by code_simp

subsection \<open>C10: the shape of every error response\<close>







end
